theory Spec2Isabelle
  imports Complex_Main
begin

section \<open>Numbers\<close>

text \<open>
  The calculator works on JavaScript numbers. Finite numbers are modelled as reals, so
  every product, quotient and power below is the exact one (the rounding of IEEE-754
  double arithmetic is not part of the model). The non-finite numbers matter at two
  places of the source and are kept there: the optional \<open>overrideKz\<close>, which is tested
  with \<open>Number.isFinite\<close>, and the plan ratio \<open>roofL / roofB\<close>, whose divisor can be zero.
\<close>

datatype number = Fin real | PosInfinity | NegInfinity | NaN

fun Number_isFinite :: "number \<Rightarrow> bool" where
  "Number_isFinite (Fin x) = True"
| "Number_isFinite PosInfinity = False"
| "Number_isFinite NegInfinity = False"
| "Number_isFinite NaN = False"

text \<open>\<open>input.overrideKz as number\<close>: the cast is only evaluated on a finite override.\<close>

fun as_number :: "number option \<Rightarrow> real" where
  "as_number (Some (Fin x)) = x"
| "as_number _ = 0"

text \<open>\<open>a ?? d\<close>: the default stands in for an absent optional field.\<close>

definition nullish :: "'a option \<Rightarrow> 'a \<Rightarrow> 'a" where
  "nullish a d = (case a of None \<Rightarrow> d | Some v \<Rightarrow> v)"

text \<open>\<open>Math.round\<close> rounds to the nearest integer, a tie going up.\<close>

definition Math_round :: "real \<Rightarrow> int" where
  "Math_round x = \<lfloor>x + 1 / 2\<rfloor>"

text \<open>\<open>Math.pow\<close>; the source only calls it on a positive base.\<close>

definition Math_pow :: "real \<Rightarrow> real \<Rightarrow> real" where
  "Math_pow x y = x powr y"

section \<open>The velocity pressure library (src/lib/wind.ts)\<close>

datatype ExposureCategory = ExposureB | ExposureC | ExposureD

text \<open>
  The risk category is the string the source switches on: \<open>getImportanceFactor\<close> has a
  \<open>default\<close> branch for strings outside the enumeration.
\<close>

type_synonym RiskCategory = string

record WindInput =
  windSpeedMph :: real
  exposure :: ExposureCategory
  heightFt :: real
  directionalityFactor :: "real option"
  topographicFactor :: "real option"
  riskCategory :: "RiskCategory option"
  overrideKz :: "number option"
  khFactor :: "real option"

text \<open>
  The notes are template strings; each is modelled by its template and the values put
  into it (the rendering of a number by \<open>toFixed\<close> is not modelled).
\<close>

datatype pressureNote =
    FactorSummary RiskCategory real real real real real
  | ManualKzOverride real
  | FormulaCitation

record WindResult =
  velocityPressurePsf :: real
  pressureNotes :: "pressureNote list"

definition roundTo :: "real \<Rightarrow> real \<Rightarrow> real" where
  "roundTo val decimals =
     (let factor = Math_pow 10 decimals
      in real_of_int (Math_round (val * factor)) / factor)"

fun getAlpha :: "ExposureCategory \<Rightarrow> real" where
  "getAlpha ExposureB = 7.0"
| "getAlpha ExposureC = 9.5"
| "getAlpha ExposureD = 11.5"

fun getZg :: "ExposureCategory \<Rightarrow> real" where
  "getZg ExposureB = 1200"
| "getZg ExposureC = 900"
| "getZg ExposureD = 700"

definition getImportanceFactor :: "RiskCategory \<Rightarrow> real" where
  "getImportanceFactor rc =
     (if rc = ''I'' then 0.87
      else if rc = ''II'' then 1.0
      else if rc = ''III'' then 1.15
      else if rc = ''IV'' then 1.15
      else 1.0)"

definition getKz :: "ExposureCategory \<Rightarrow> real \<Rightarrow> real" where
  "getKz ex h =
     (let z = max 15 (min h 500);
          alpha = getAlpha ex;
          zg = getZg ex;
          kz = 2.01 * Math_pow (z / zg) (2 / alpha)
      in roundTo kz 3)"

definition calculateVelocityPressure :: "WindInput \<Rightarrow> WindResult" where
  "calculateVelocityPressure inp =
     (let kd = nullish (directionalityFactor inp) 0.85;
          kzt = nullish (topographicFactor inp) 1.0;
          rc = nullish (riskCategory inp) ''II'';
          importance = getImportanceFactor rc;
          computedKz = getKz (exposure inp) (heightFt inp);
          kz = (if Number_isFinite (nullish (overrideKz inp) NaN)
                then as_number (overrideKz inp) else computedKz);
          kh = nullish (khFactor inp) 1.0;
          qzBase = 0.00256 * kz * kzt * kh * windSpeedMph inp * windSpeedMph inp;
          qz = qzBase * importance
      in \<lparr> velocityPressurePsf = roundTo qz 3,
           pressureNotes =
             [FactorSummary rc kd kzt importance kz kh]
             @ (if kz \<noteq> computedKz then [ManualKzOverride computedKz] else [])
             @ [FormulaCitation] \<rparr>)"

text \<open>\<open>getGcpiEnclosed\<close>, as the pair (positive, negative).\<close>

record Gcpi =
  positive :: real
  negative :: real

definition getGcpiEnclosed :: Gcpi where
  "getGcpiEnclosed = \<lparr> positive = 0.18, negative = -0.18 \<rparr>"

section \<open>The pressure tables and the composer (WindForm)\<close>

datatype RoofType = Flat | Sloped

datatype BuildingEnclosure = Enclosed | PartiallyEnclosed

text \<open>
  \<open>roofL / roofB\<close> on finite numbers: a zero divisor gives an infinity of the
  dividend's sign, and \<open>0 / 0\<close> is NaN (HOL's \<open>x / 0 = 0\<close> would take another branch of
  the tables below).
\<close>

definition js_divide :: "real \<Rightarrow> real \<Rightarrow> number" where
  "js_divide a b =
     (if b \<noteq> 0 then Fin (a / b)
      else if 0 < a then PosInfinity
      else if a < 0 then NegInfinity
      else NaN)"

text \<open>\<open>x <= c\<close> for a finite bound \<open>c\<close>: every comparison with NaN is false.\<close>

fun number_le :: "number \<Rightarrow> real \<Rightarrow> bool" where
  "number_le (Fin x) c = (x \<le> c)"
| "number_le PosInfinity c = False"
| "number_le NegInfinity c = True"
| "number_le NaN c = False"

text \<open>
  The value of a number in arithmetic that the source only reaches with a finite one.
\<close>

fun finite_value :: "number \<Rightarrow> real" where
  "finite_value (Fin x) = x"
| "finite_value _ = 0"

record WallCpValues =
  windward :: real
  leeward :: real
  sidewall :: real

text \<open>
  The interpolations are only reached by a finite ratio: minus infinity passes the first
  test, plus infinity and NaN fail all three.
\<close>

definition calculateWallCpValues :: "real \<Rightarrow> real \<Rightarrow> WallCpValues" where
  "calculateWallCpValues roofL roofB =
     (let lbRatio = js_divide roofL roofB;
          windwardCp = 0.8;
          leewardCp =
            (if number_le lbRatio 1.0 then -0.5
             else if number_le lbRatio 2.0 then
               -0.5 + (finite_value lbRatio - 1.0) * (-0.3 - (-0.5)) / (2.0 - 1.0)
             else if number_le lbRatio 4.0 then
               -0.3 + (finite_value lbRatio - 2.0) * (-0.2 - (-0.3)) / (4.0 - 2.0)
             else -0.2);
          sidewallCp = -0.7
      in \<lparr> windward = windwardCp, leeward = leewardCp, sidewall = sidewallCp \<rparr>)"

text \<open>
  The roof coefficients are one of two objects: three zones for a flat roof, two slopes
  for a sloped one.
\<close>

datatype RoofCpValues =
    FlatRoofCp (zone1: real) (zone2: real) (zone3: real)
  | SlopedRoofCp (windwardSlope: real) (leewardSlope: real)

definition calculateRoofCpValues :: "RoofType \<Rightarrow> real \<Rightarrow> real \<Rightarrow> RoofCpValues" where
  "calculateRoofCpValues roofType roofL roofB =
     (let lbRatio = js_divide roofL roofB
      in if roofType = Flat then
           (let (zone1Cp, zone3Cp) =
                  (if number_le lbRatio 0.5 then (0.8, -0.7)
                   else if number_le lbRatio 1.0 then (0.7, -0.6)
                   else if number_le lbRatio 2.0 then (0.6, -0.5)
                   else (0.5, -0.4))
            in FlatRoofCp zone1Cp 0.5 zone3Cp)
         else SlopedRoofCp 0.3 (-0.7))"

text \<open>
  A surface pressure is a label and the string \<open>"a, b psf"\<close>; the model keeps the two
  numbers \<open>a\<close> (with \<open>gcpi.positive\<close>) and \<open>b\<close> (with \<open>gcpi.negative\<close>) before
  \<open>toFixed(2)\<close>, and the width or height a label shows.
\<close>

datatype surfaceLabel =
    RoofZone1 real
  | RoofZone2 real
  | RoofZone3 real
  | WindwardSlope
  | LeewardSlope
  | WindwardWall real
  | LeewardWall real
  | Sidewall real

record SurfacePressure =
  label :: surfaceLabel
  pvalue :: "real \<times> real"

record RoofPressures =
  pressures :: "SurfacePressure list"
  cpValues :: RoofCpValues

definition calculateRoofPressures ::
  "RoofType \<Rightarrow> real \<Rightarrow> real \<Rightarrow> Gcpi \<Rightarrow> real \<Rightarrow> real \<Rightarrow> real \<Rightarrow> RoofPressures" where
  "calculateRoofPressures roofType qz kd gcpi roofL roofB gustFactor =
     (let q = qz * kd;
          cpValues = calculateRoofCpValues roofType roofL roofB
      in if roofType = Flat then
           (let zone1Width = min (roofB * 0.2) (roofL * 0.1);
                zone2Width = roofB - zone1Width
            in \<lparr> pressures =
                   [\<lparr> label = RoofZone1 zone1Width,
                      pvalue = (q * gustFactor * zone1 cpValues - q * positive gcpi,
                                q * gustFactor * zone1 cpValues - q * negative gcpi) \<rparr>,
                    \<lparr> label = RoofZone2 zone2Width,
                      pvalue = (q * gustFactor * zone2 cpValues - q * positive gcpi,
                                q * gustFactor * zone2 cpValues - q * negative gcpi) \<rparr>,
                    \<lparr> label = RoofZone3 zone1Width,
                      pvalue = (q * gustFactor * zone3 cpValues - q * positive gcpi,
                                q * gustFactor * zone3 cpValues - q * negative gcpi) \<rparr>],
                 cpValues = cpValues \<rparr>)
         else
           \<lparr> pressures =
               [\<lparr> label = WindwardSlope,
                  pvalue = (q * gustFactor * windwardSlope cpValues - q * positive gcpi,
                            q * gustFactor * windwardSlope cpValues - q * negative gcpi) \<rparr>,
                \<lparr> label = LeewardSlope,
                  pvalue = (q * gustFactor * leewardSlope cpValues - q * positive gcpi,
                            q * gustFactor * leewardSlope cpValues - q * negative gcpi) \<rparr>],
             cpValues = cpValues \<rparr>)"

definition calculateGustEffectFactor :: "ExposureCategory \<Rightarrow> real \<Rightarrow> real" where
  "calculateGustEffectFactor ex h = 0.85"

fun getGcpiValues :: "BuildingEnclosure \<Rightarrow> Gcpi" where
  "getGcpiValues Enclosed = \<lparr> positive = 0.18, negative = -0.18 \<rparr>"
| "getGcpiValues PartiallyEnclosed = \<lparr> positive = 0.55, negative = -0.55 \<rparr>"

text \<open>
  The form holds its numeric fields as strings; the model holds what \<open>Number(...)\<close>
  makes of each. \<open>manualKz\<close> is \<open>None\<close> for the empty string, which \<open>Number\<close> reads
  as 0.
\<close>

record FormState =
  form_windSpeedMph :: number
  form_exposure :: ExposureCategory
  form_numStories :: number
  form_storyHeightFt :: number
  form_directionalityFactor :: number
  form_riskCategory :: RiskCategory
  form_roofType :: RoofType
  form_buildingEnclosure :: BuildingEnclosure
  form_roofLength :: number
  form_roofWidth :: number
  form_wallEvaluationHeight :: number
  form_useManualKz :: bool
  form_manualKz :: "number option"

definition Number_manualKz :: "FormState \<Rightarrow> number" where
  "Number_manualKz form = (case form_manualKz form of None \<Rightarrow> Fin 0 | Some x \<Rightarrow> x)"

text \<open>\<open>Math.floor(Number(form.numStories))\<close>; it is an integer when the number is finite.\<close>

definition numStories :: "FormState \<Rightarrow> real" where
  "numStories form = real_of_int \<lfloor>finite_value (form_numStories form)\<rfloor>"

definition isValid :: "FormState \<Rightarrow> bool" where
  "isValid form =
     (let v = form_windSpeedMph form;
          n = numStories form;
          sh = form_storyHeightFt form;
          kd = form_directionalityFactor form;
          roofL = form_roofLength form;
          roofB = form_roofWidth form;
          wallHeight = form_wallEvaluationHeight form
      in Number_isFinite v \<and> finite_value v > 0 \<and> finite_value v < 300 \<and>
         Number_isFinite (form_numStories form) \<and> n \<ge> 1 \<and> n \<le> 200 \<and>
         Number_isFinite sh \<and> finite_value sh > 4 \<and> finite_value sh \<le> 20 \<and>
         Number_isFinite kd \<and> finite_value kd > 0 \<and> finite_value kd \<le> 1 \<and>
         Number_isFinite roofL \<and> finite_value roofL > 0 \<and> finite_value roofL \<le> 1000 \<and>
         Number_isFinite roofB \<and> finite_value roofB > 0 \<and> finite_value roofB \<le> 1000 \<and>
         Number_isFinite wallHeight \<and> finite_value wallHeight > 0 \<and>
         finite_value wallHeight \<le> n * finite_value sh \<and>
         (\<not> form_useManualKz form \<or>
          (form_manualKz form \<noteq> None \<and> Number_isFinite (Number_manualKz form) \<and>
           finite_value (Number_manualKz form) > 0.3 \<and>
           finite_value (Number_manualKz form) < 3)))"

text \<open>
  The object handed to \<open>calculateVelocityPressure\<close> for the top story and for the wall: the
  two calls differ in \<open>heightFt\<close> only.
\<close>

definition formInput :: "FormState \<Rightarrow> real \<Rightarrow> WindInput" where
  "formInput form z =
     \<lparr> windSpeedMph = finite_value (form_windSpeedMph form),
       exposure = form_exposure form,
       heightFt = z,
       directionalityFactor = Some (finite_value (form_directionalityFactor form)),
       topographicFactor = None,
       riskCategory = Some (form_riskCategory form),
       overrideKz = (if form_useManualKz form then Some (Number_manualKz form) else None),
       khFactor = None \<rparr>"

record FormResults =
  wallPressures :: "SurfacePressure list"
  roofPressuresGrouped :: "SurfacePressure list"

text \<open>
  The memo of \<open>WindForm\<close> that composes the pressures (its summary items and the
  per-story series are left out). An invalid form gives empty lists.
\<close>

definition windFormMemo :: "FormState \<Rightarrow> FormResults" where
  "windFormMemo form =
     (if \<not> isValid form then \<lparr> wallPressures = [], roofPressuresGrouped = [] \<rparr>
      else
        (let n = numStories form;
             sh = finite_value (form_storyHeightFt form);
             kd = finite_value (form_directionalityFactor form);
             totalHeight = n * sh;
             lastMidZ = (n - 0.5) * sh;
             topResult = calculateVelocityPressure (formInput form lastMidZ);
             gcpi = getGcpiValues (form_buildingEnclosure form);
             gustFactor = calculateGustEffectFactor (form_exposure form) totalHeight;
             roofResult = calculateRoofPressures (form_roofType form)
                            (velocityPressurePsf topResult) kd gcpi
                            (finite_value (form_roofLength form))
                            (finite_value (form_roofWidth form)) gustFactor;
             wallCpValues = calculateWallCpValues (finite_value (form_roofLength form))
                              (finite_value (form_roofWidth form));
             wallEvaluationHeight = finite_value (form_wallEvaluationHeight form);
             wallResult = calculateVelocityPressure (formInput form wallEvaluationHeight);
             q = velocityPressurePsf wallResult;
             qi = velocityPressurePsf topResult
         in \<lparr> wallPressures =
                     [\<lparr> label = WindwardWall wallEvaluationHeight,
                        pvalue = (q * gustFactor * windward wallCpValues - qi * positive gcpi,
                                  q * gustFactor * windward wallCpValues - qi * negative gcpi) \<rparr>,
                      \<lparr> label = LeewardWall wallEvaluationHeight,
                        pvalue = (q * gustFactor * leeward wallCpValues - qi * positive gcpi,
                                  q * gustFactor * leeward wallCpValues - qi * negative gcpi) \<rparr>,
                      \<lparr> label = Sidewall wallEvaluationHeight,
                        pvalue = (q * gustFactor * sidewall wallCpValues - qi * positive gcpi,
                                  q * gustFactor * sidewall wallCpValues - qi * negative gcpi) \<rparr>],
              roofPressuresGrouped = pressures roofResult \<rparr>))"

section \<open>The formulas of the specification\<close>

text \<open>
  Each definition of this section follows the words of the specification, not the code;
  the theorems below compare the code with them.
\<close>

text \<open>Clamping to a closed interval.\<close>

definition clamp_spec :: "real \<Rightarrow> real \<Rightarrow> real \<Rightarrow> real" where
  "clamp_spec x lo hi = (if x < lo then lo else if hi < x then hi else x)"

text \<open>The nearest multiple of 0.001, a tie going up.\<close>

definition round3_spec :: "real \<Rightarrow> real" where
  "round3_spec x = real_of_int \<lfloor>x * 1000 + 1 / 2\<rfloor> / 1000"

text \<open>The power-law parameters by exposure.\<close>

fun alpha_spec :: "ExposureCategory \<Rightarrow> real" where
  "alpha_spec ExposureB = 7"
| "alpha_spec ExposureC = 19 / 2"
| "alpha_spec ExposureD = 23 / 2"

fun zg_spec :: "ExposureCategory \<Rightarrow> real" where
  "zg_spec ExposureB = 1200"
| "zg_spec ExposureC = 900"
| "zg_spec ExposureD = 700"

text \<open>Section 4.1: the power law at the clamped height, rounded.\<close>

definition Kz_spec :: "ExposureCategory \<Rightarrow> real \<Rightarrow> real" where
  "Kz_spec ex h =
     round3_spec (2.01 * (clamp_spec h 15 500 / zg_spec ex) powr (2 / alpha_spec ex))"

text \<open>Section 4.2: the importance factor by risk category, 1.0 outside the table.\<close>

definition importance_table :: "(string \<times> real) list" where
  "importance_table = [(''I'', 0.87), (''II'', 1.0), (''III'', 1.15), (''IV'', 1.15)]"

definition importance_spec :: "string \<Rightarrow> real" where
  "importance_spec rc = (case map_of importance_table rc of Some i \<Rightarrow> i | None \<Rightarrow> 1.0)"

text \<open>The override when it is a finite number, else the computed coefficient.\<close>

definition Kz_effective_spec :: "WindInput \<Rightarrow> real" where
  "Kz_effective_spec inp =
     (case overrideKz inp of
        Some (Fin k) \<Rightarrow> k
      | _ \<Rightarrow> getKz (exposure inp) (heightFt inp))"

text \<open>\<open>qz = 0.00256 * Kz * Kzt * Kh * V\<^sup>2 * I\<close>, rounded.\<close>

definition qz_spec :: "WindInput \<Rightarrow> real" where
  "qz_spec inp =
     round3_spec (0.00256 * Kz_effective_spec inp * nullish (topographicFactor inp) 1
       * nullish (khFactor inp) 1 * (windSpeedMph inp)\<^sup>2
       * importance_spec (nullish (riskCategory inp) ''II''))"

text \<open>Section 4.3: the leeward wall coefficient by \<open>L / B\<close>, each band closed above.\<close>

definition leeward_spec :: "real \<Rightarrow> real" where
  "leeward_spec r =
     (if r \<le> 1 then - 0.5
      else if r \<le> 2 then - 0.5 + (r - 1) * (- 0.3 - (- 0.5)) / (2 - 1)
      else if r \<le> 4 then - 0.3 + (r - 2) * (- 0.2 - (- 0.3)) / (4 - 2)
      else - 0.2)"

text \<open>The flat roof coefficients (zone 1, zone 2, zone 3) by the band of \<open>L / B\<close>.\<close>

definition flatRoofCp_spec :: "real \<Rightarrow> real \<times> real \<times> real" where
  "flatRoofCp_spec r =
     (if r \<le> 0.5 then (0.8, 0.5, - 0.7)
      else if r \<le> 1 then (0.7, 0.5, - 0.6)
      else if r \<le> 2 then (0.6, 0.5, - 0.5)
      else (0.5, 0.5, - 0.4))"

text \<open>
  Section 4.4, the composer's contract: the pair of \<open>q * G * Cp - q\<^sub>i * Gcpi\<close> with the
  positive and with the negative internal coefficient.
\<close>

definition composePressure_spec :: "real \<Rightarrow> real \<Rightarrow> real \<Rightarrow> real \<Rightarrow> Gcpi \<Rightarrow> real \<times> real" where
  "composePressure_spec q qi G cp gcpi =
     (q * G * cp - qi * positive gcpi, q * G * cp - qi * negative gcpi)"

section \<open>Reading the results\<close>

text \<open>The override-used note, and the Kz that the factor summary reports.\<close>

fun isOverrideNote :: "pressureNote \<Rightarrow> bool" where
  "isOverrideNote (ManualKzOverride c) = True"
| "isOverrideNote _ = False"

fun reportedKz :: "pressureNote list \<Rightarrow> real option" where
  "reportedKz (FactorSummary rc kd kzt i kz kh # ns) = Some kz"
| "reportedKz _ = None"

text \<open>The width a roof zone's label shows.\<close>

fun zoneWidth :: "surfaceLabel \<Rightarrow> real" where
  "zoneWidth (RoofZone1 w) = w"
| "zoneWidth (RoofZone2 w) = w"
| "zoneWidth (RoofZone3 w) = w"
| "zoneWidth _ = 0"

text \<open>The roof coefficients in the order of the pressures composed from them.\<close>

fun roofCpList :: "RoofCpValues \<Rightarrow> real list" where
  "roofCpList (FlatRoofCp c1 c2 c3) = [c1, c2, c3]"
| "roofCpList (SlopedRoofCp cw cl) = [cw, cl]"

text \<open>
  The velocity pressure of a form at a height, and the height the form evaluates for its
  top story and roof: the middle of the last story.
\<close>

definition velocityPressureAt :: "FormState \<Rightarrow> real \<Rightarrow> real" where
  "velocityPressureAt form z = velocityPressurePsf (calculateVelocityPressure (formInput form z))"

definition topStoryHeight :: "FormState \<Rightarrow> real" where
  "topStoryHeight form = (numStories form - 1 / 2) * finite_value (form_storyHeightFt form)"

section \<open>Sample inputs\<close>

text \<open>Exposure B at 15 ft, where the computed Kz is 0.575, with several overrides.\<close>

definition overrideEqualInput :: WindInput where
  "overrideEqualInput =
     \<lparr> windSpeedMph = 115, exposure = ExposureB, heightFt = 15,
       directionalityFactor = Some 0.85, topographicFactor = Some 1,
       riskCategory = Some ''II'', overrideKz = Some (Fin 0.575), khFactor = Some 1 \<rparr>"

definition manualOverrideInput :: WindInput where
  "manualOverrideInput =
     \<lparr> windSpeedMph = 115, exposure = ExposureB, heightFt = 15,
       directionalityFactor = Some 0.85, topographicFactor = Some 1,
       riskCategory = Some ''II'', overrideKz = Some (Fin 1), khFactor = Some 1 \<rparr>"

definition nanOverrideInput :: WindInput where
  "nanOverrideInput =
     \<lparr> windSpeedMph = 115, exposure = ExposureB, heightFt = 15,
       directionalityFactor = Some 0.85, topographicFactor = Some 1,
       riskCategory = Some ''II'', overrideKz = Some NaN, khFactor = Some 1 \<rparr>"

text \<open>An input in the documented ranges but for its negative override.\<close>

definition negativeOverrideInput :: WindInput where
  "negativeOverrideInput =
     \<lparr> windSpeedMph = 100, exposure = ExposureB, heightFt = 15,
       directionalityFactor = Some 0.85, topographicFactor = Some 1,
       riskCategory = Some ''II'', overrideKz = Some (Fin (- 1)), khFactor = Some 1 \<rparr>"

text \<open>The form the calculator starts with, switched to a manual Kz of 1 at 100 mph.\<close>

definition manualForm :: "real \<Rightarrow> FormState" where
  "manualForm kd =
     \<lparr> form_windSpeedMph = Fin 100,
       form_exposure = ExposureB,
       form_numStories = Fin 3,
       form_storyHeightFt = Fin 10,
       form_directionalityFactor = Fin kd,
       form_riskCategory = ''II'',
       form_roofType = Flat,
       form_buildingEnclosure = Enclosed,
       form_roofLength = Fin 100,
       form_roofWidth = Fin 50,
       form_wallEvaluationHeight = Fin 15,
       form_useManualKz = True,
       form_manualKz = Some (Fin 1) \<rparr>"

text \<open>The form the calculator starts with.\<close>

definition defaultForm :: FormState where
  "defaultForm =
     \<lparr> form_windSpeedMph = Fin 115,
       form_exposure = ExposureB,
       form_numStories = Fin 3,
       form_storyHeightFt = Fin 10,
       form_directionalityFactor = Fin 0.85,
       form_riskCategory = ''II'',
       form_roofType = Flat,
       form_buildingEnclosure = Enclosed,
       form_roofLength = Fin 100,
       form_roofWidth = Fin 50,
       form_wallEvaluationHeight = Fin 15,
       form_useManualKz = False,
       form_manualKz = None \<rparr>"

section \<open>Rounding\<close>

lemma roundTo_3: "roundTo v 3 = real_of_int \<lfloor>v * 1000 + 1 / 2\<rfloor> / 1000"
  by (simp add: roundTo_def Math_pow_def Math_round_def)

lemma roundTo_3_near: "\<bar>roundTo v 3 - v\<bar> \<le> 1 / 2000"
proof -
  define k where "k = \<lfloor>v * 1000 + 1 / 2\<rfloor>"
  have lo: "real_of_int k \<le> v * 1000 + 1 / 2"
    unfolding k_def by (rule of_int_floor_le)
  have hi: "v * 1000 + 1 / 2 < real_of_int k + 1"
    unfolding k_def by linarith
  have eq: "roundTo v 3 = real_of_int k / 1000"
    by (simp add: roundTo_3 k_def)
  have "real_of_int k / 1000 - v \<le> 1 / 2000" using lo by simp
  moreover have "- (1 / 2000) \<le> real_of_int k / 1000 - v" using hi by simp
  ultimately show ?thesis unfolding eq by linarith
qed

lemma roundTo_3_mono: "a \<le> b \<Longrightarrow> roundTo a 3 \<le> roundTo b 3"
proof -
  assume "a \<le> b"
  then have "\<lfloor>a * 1000 + 1 / 2\<rfloor> \<le> \<lfloor>b * 1000 + 1 / 2\<rfloor>"
    by (intro floor_mono) simp
  then show ?thesis
    by (simp add: roundTo_3 divide_right_mono)
qed

section \<open>The exposure coefficient\<close>

lemma getAlpha_spec: "getAlpha ex = alpha_spec ex"
  by (cases ex) simp_all

lemma getZg_spec: "getZg ex = zg_spec ex"
  by (cases ex) simp_all

lemma clamp_max_min: "max 15 (min h 500) = clamp_spec h 15 500"
  by (simp add: clamp_spec_def max_def min_def)

lemma getZg_pos: "0 < getZg ex"
  by (cases ex) simp_all

lemma getAlpha_pos: "0 < getAlpha ex"
  by (cases ex) simp_all

text \<open>
  C5: for every exposure and every height, \<open>getKz\<close> is the power law
  \<open>2.01 * (z / zg) ^ (2 / \<alpha>)\<close> at the height clamped to [15, 500], with the
  specification's table of \<open>\<alpha>\<close> and \<open>zg\<close>, rounded to three decimals. The function is
  total: a height outside the interval is clamped, no input is rejected.
\<close>

theorem getKz_power_law: "getKz ex h = Kz_spec ex h"
  by (simp add: getKz_def Kz_spec_def Let_def Math_pow_def roundTo_3 round3_spec_def
      getAlpha_spec getZg_spec clamp_max_min)

lemma getKz_mono: "h1 \<le> h2 \<Longrightarrow> getKz ex h1 \<le> getKz ex h2"
proof -
  assume le: "h1 \<le> h2"
  let ?z1 = "max 15 (min h1 500)" and ?z2 = "max 15 (min h2 500)"
  have z: "?z1 \<le> ?z2" using le by (simp add: max_def min_def)
  have pos: "0 \<le> ?z1 / getZg ex" using getZg_pos [of ex] by simp
  have "?z1 / getZg ex \<le> ?z2 / getZg ex"
    using z getZg_pos [of ex] by (simp add: divide_right_mono)
  then have "(?z1 / getZg ex) powr (2 / getAlpha ex) \<le> (?z2 / getZg ex) powr (2 / getAlpha ex)"
    using pos getAlpha_pos [of ex] by (intro powr_mono2) simp_all
  then have "2.01 * (?z1 / getZg ex) powr (2 / getAlpha ex)
      \<le> 2.01 * (?z2 / getZg ex) powr (2 / getAlpha ex)"
    by simp
  then show ?thesis
    unfolding getKz_def Let_def Math_pow_def by (rule roundTo_3_mono)
qed

text \<open>
  C9: for every exposure, the rounded coefficient does not decrease with the height on
  [15, 500].
\<close>

theorem getKz_nondecreasing:
  "h1 \<in> {15..500} \<Longrightarrow> h2 \<in> {15..500} \<Longrightarrow> h1 \<le> h2 \<Longrightarrow> getKz ex h1 \<le> getKz ex h2"
  by (rule getKz_mono)

theorem getKz_nondecreasing_witness:
  "(15::real) \<in> {15..500} \<and> (500::real) \<in> {15..500} \<and> (15::real) \<le> 500
     \<and> getKz ExposureC 15 \<le> getKz ExposureC 500"
  using getKz_nondecreasing [of 15 500 ExposureC] by simp

text \<open>
  The seventh root of a square, between two rationals: the coefficient of exposure B is
  a power with exponent 2/7.
\<close>

lemma root7_bounds:
  fixes a lo hi :: real
  assumes "0 < a" "0 \<le> lo" "lo ^ 7 \<le> a ^ 2" "a ^ 2 < hi ^ 7" "0 \<le> hi"
  shows "lo \<le> a powr (2 / 7) \<and> a powr (2 / 7) < hi"
proof -
  let ?x = "a powr (2 / 7)"
  have x0: "0 \<le> ?x" by simp
  have "?x ^ 7 = ?x powr 7"
    using x0 by (simp only: powr_numeral)
  also have "\<dots> = a powr (2 / 7 * 7)"
    by (simp only: powr_powr)
  also have "\<dots> = a powr 2" by simp
  also have "\<dots> = a ^ 2" using assms(1) by (simp only: powr_numeral less_imp_le)
  finally have x7: "?x ^ 7 = a ^ 2" .
  have "lo \<le> ?x"
  proof (rule ccontr)
    assume "\<not> lo \<le> ?x"
    then have "?x < lo" by simp
    then have "?x ^ 7 < lo ^ 7" using x0 by (intro power_strict_mono) simp_all
    with x7 assms(3) show False by simp
  qed
  moreover have "?x < hi"
  proof (rule ccontr)
    assume "\<not> ?x < hi"
    then have "hi \<le> ?x" by simp
    then have "hi ^ 7 \<le> ?x ^ 7" using assms(5) by (intro power_mono) simp_all
    with x7 assms(4) show False by simp
  qed
  ultimately show ?thesis by simp
qed

lemma getKz_B_15: "getKz ExposureB 15 = 0.575"
proof -
  have b: "383 / 1340 \<le> (1 / 80 :: real) powr (2 / 7)
      \<and> (1 / 80 :: real) powr (2 / 7) < 1151 / 4020"
    by (rule root7_bounds) (simp_all add: power_divide divide_simps)
  have "\<lfloor>2.01 * (1 / 80 :: real) powr (2 / 7) * 1000 + 1 / 2\<rfloor> = 575"
    using b by (intro floor_unique) simp_all
  then show ?thesis
    by (simp add: getKz_def Let_def Math_pow_def roundTo_3)
qed

lemma getKz_B_25: "getKz ExposureB 25 = 0.665"
proof -
  have b: "443 / 1340 \<le> (1 / 48 :: real) powr (2 / 7)
      \<and> (1 / 48 :: real) powr (2 / 7) < 1331 / 4020"
    by (rule root7_bounds) (simp_all add: power_divide divide_simps)
  have "\<lfloor>2.01 * (1 / 48 :: real) powr (2 / 7) * 1000 + 1 / 2\<rfloor> = 665"
    using b by (intro floor_unique) simp_all
  then show ?thesis
    by (simp add: getKz_def Let_def Math_pow_def roundTo_3)
qed

lemma getKz_B_30: "getKz ExposureB 30 = 0.701"
proof -
  have b: "467 / 1340 \<le> (1 / 40 :: real) powr (2 / 7)
      \<and> (1 / 40 :: real) powr (2 / 7) < 1403 / 4020"
    by (rule root7_bounds) (simp_all add: power_divide divide_simps)
  have "\<lfloor>2.01 * (1 / 40 :: real) powr (2 / 7) * 1000 + 1 / 2\<rfloor> = 701"
    using b by (intro floor_unique) simp_all
  then show ?thesis
    by (simp add: getKz_def Let_def Math_pow_def roundTo_3)
qed

section \<open>The velocity pressure\<close>

lemma getImportanceFactor_spec: "getImportanceFactor rc = importance_spec rc"
  by (simp add: getImportanceFactor_def importance_spec_def importance_table_def)

lemma kz_used:
  "(if Number_isFinite (nullish (overrideKz inp) NaN) then as_number (overrideKz inp)
    else getKz (exposure inp) (heightFt inp)) = Kz_effective_spec inp"
  by (cases "overrideKz inp" rule: as_number.cases)
    (simp_all add: nullish_def Kz_effective_spec_def)

lemma velocityPressurePsf_eq:
  "velocityPressurePsf (calculateVelocityPressure inp) = qz_spec inp"
proof -
  have "velocityPressurePsf (calculateVelocityPressure inp)
      = roundTo (0.00256 * Kz_effective_spec inp * nullish (topographicFactor inp) 1.0
          * nullish (khFactor inp) 1.0 * windSpeedMph inp * windSpeedMph inp
          * getImportanceFactor (nullish (riskCategory inp) ''II'')) 3"
    unfolding calculateVelocityPressure_def Let_def kz_used
    by (simp only: WindResult.select_convs)
  also have "0.00256 * Kz_effective_spec inp * nullish (topographicFactor inp) 1.0
          * nullish (khFactor inp) 1.0 * windSpeedMph inp * windSpeedMph inp
          * getImportanceFactor (nullish (riskCategory inp) ''II'')
        = 0.00256 * Kz_effective_spec inp * nullish (topographicFactor inp) 1
          * nullish (khFactor inp) 1 * (windSpeedMph inp)\<^sup>2
          * importance_spec (nullish (riskCategory inp) ''II'')"
    by (simp add: getImportanceFactor_spec power2_eq_square)
  finally show ?thesis
    by (simp only: qz_spec_def roundTo_3 round3_spec_def)
qed

lemma Kz_effective_spec_kd:
  "Kz_effective_spec (inp\<lparr>directionalityFactor := kd\<rparr>) = Kz_effective_spec inp"
  by (simp add: Kz_effective_spec_def split: option.split number.split)

text \<open>
  C1: for every input, the velocity pressure is
  \<open>0.00256 * Kz_effective * Kzt * Kh * V\<^sup>2 * I\<close> rounded to three decimals, with the
  importance factor of the specification's table (1.0 outside it), and the
  directionality factor is no factor of it: changing \<open>directionalityFactor\<close> alone
  leaves the result as it is.
\<close>

theorem calculateVelocityPressure_formula:
  "velocityPressurePsf (calculateVelocityPressure inp) = qz_spec inp
   \<and> velocityPressurePsf (calculateVelocityPressure (inp\<lparr>directionalityFactor := kd\<rparr>))
       = velocityPressurePsf (calculateVelocityPressure inp)"
  by (simp add: velocityPressurePsf_eq qz_spec_def Kz_effective_spec_kd)

lemma pressureNotes_eq:
  "pressureNotes (calculateVelocityPressure inp) =
     [FactorSummary (nullish (riskCategory inp) ''II'') (nullish (directionalityFactor inp) 0.85)
        (nullish (topographicFactor inp) 1)
        (getImportanceFactor (nullish (riskCategory inp) ''II''))
        (Kz_effective_spec inp) (nullish (khFactor inp) 1)]
     @ (if Kz_effective_spec inp \<noteq> getKz (exposure inp) (heightFt inp)
        then [ManualKzOverride (getKz (exposure inp) (heightFt inp))] else [])
     @ [FormulaCitation]"
  by (simp add: calculateVelocityPressure_def Let_def kz_used)

text \<open>
  C4 as stated fails: a finite override that equals the computed coefficient (0.575 for
  exposure B at 15 ft) leaves no override note, since the note is pushed on
  \<open>kz !== computedKz\<close>.
\<close>

theorem override_note_counterexample:
  "overrideKz overrideEqualInput = Some (Fin 0.575)
   \<and> pressureNotes (calculateVelocityPressure overrideEqualInput)
       = [FactorSummary ''II'' 0.85 1 1 0.575 1, FormulaCitation]
   \<and> \<not> list_ex isOverrideNote (pressureNotes (calculateVelocityPressure overrideEqualInput))"
  by (simp add: pressureNotes_eq overrideEqualInput_def getKz_B_15 nullish_def
      getImportanceFactor_def Kz_effective_spec_def)

text \<open>
  C4, amended: with a finite override \<open>k\<close> the coefficient used and reported is \<open>k\<close>, and
  the override note is there exactly when \<open>k\<close> differs from the computed coefficient;
  with an absent or non-finite override the computed coefficient is used and reported
  and there is no override note.
\<close>

theorem override_behaviour:
  "(overrideKz inp = Some (Fin k) \<longrightarrow>
      reportedKz (pressureNotes (calculateVelocityPressure inp)) = Some k
      \<and> velocityPressurePsf (calculateVelocityPressure inp)
          = round3_spec (0.00256 * k * nullish (topographicFactor inp) 1
              * nullish (khFactor inp) 1 * (windSpeedMph inp)\<^sup>2
              * importance_spec (nullish (riskCategory inp) ''II''))
      \<and> (list_ex isOverrideNote (pressureNotes (calculateVelocityPressure inp))
           \<longleftrightarrow> k \<noteq> getKz (exposure inp) (heightFt inp)))
   \<and> (\<not> Number_isFinite (nullish (overrideKz inp) NaN) \<longrightarrow>
      reportedKz (pressureNotes (calculateVelocityPressure inp))
        = Some (getKz (exposure inp) (heightFt inp))
      \<and> velocityPressurePsf (calculateVelocityPressure inp)
          = round3_spec (0.00256 * getKz (exposure inp) (heightFt inp)
              * nullish (topographicFactor inp) 1
              * nullish (khFactor inp) 1 * (windSpeedMph inp)\<^sup>2
              * importance_spec (nullish (riskCategory inp) ''II''))
      \<and> \<not> list_ex isOverrideNote (pressureNotes (calculateVelocityPressure inp)))"
proof -
  have fin: "Kz_effective_spec inp = k" if "overrideKz inp = Some (Fin k)"
    using that by (simp add: Kz_effective_spec_def)
  have nonfin: "Kz_effective_spec inp = getKz (exposure inp) (heightFt inp)"
    if "\<not> Number_isFinite (nullish (overrideKz inp) NaN)"
    using that by (cases "overrideKz inp" rule: as_number.cases)
      (simp_all add: nullish_def Kz_effective_spec_def)
  show ?thesis
    by (auto simp add: pressureNotes_eq velocityPressurePsf_eq qz_spec_def fin nonfin)
qed

theorem override_behaviour_witness:
  "overrideKz manualOverrideInput = Some (Fin 1)
   \<and> reportedKz (pressureNotes (calculateVelocityPressure manualOverrideInput)) = Some 1
   \<and> list_ex isOverrideNote (pressureNotes (calculateVelocityPressure manualOverrideInput))
   \<and> \<not> Number_isFinite (nullish (overrideKz nanOverrideInput) NaN)
   \<and> reportedKz (pressureNotes (calculateVelocityPressure nanOverrideInput)) = Some 0.575
   \<and> \<not> list_ex isOverrideNote (pressureNotes (calculateVelocityPressure nanOverrideInput))"
  using override_behaviour [of manualOverrideInput 1] override_behaviour [of nanOverrideInput 0]
  by (simp add: manualOverrideInput_def nanOverrideInput_def nullish_def getKz_B_15)

text \<open>
  C10: only the finiteness of the override is checked. An input in the documented ranges
  but for a finite negative override has a strictly negative velocity pressure
  (-25.6 psf at 100 mph with an override of -1).
\<close>

theorem negative_override_negative_pressure:
  "\<exists>inp k. overrideKz inp = Some (Fin k) \<and> k < 0
     \<and> 0 < windSpeedMph inp \<and> windSpeedMph inp < 300 \<and> 0 < heightFt inp
     \<and> directionalityFactor inp = Some 0.85 \<and> topographicFactor inp = Some 1
     \<and> riskCategory inp = Some ''II'' \<and> khFactor inp = Some 1
     \<and> velocityPressurePsf (calculateVelocityPressure inp) < 0"
proof -
  have "velocityPressurePsf (calculateVelocityPressure negativeOverrideInput) = - 25.6"
    by (simp add: velocityPressurePsf_eq qz_spec_def negativeOverrideInput_def nullish_def
        importance_spec_def importance_table_def round3_spec_def Kz_effective_spec_def)
  then show ?thesis
    by (intro exI [of _ negativeOverrideInput] exI [of _ "- 1"])
      (simp add: negativeOverrideInput_def)
qed

section \<open>The pressure coefficient tables\<close>

lemma leeward_finite:
  "roofB \<noteq> 0 \<Longrightarrow> leeward (calculateWallCpValues roofL roofB) = leeward_spec (roofL / roofB)"
  by (simp add: calculateWallCpValues_def js_divide_def Let_def leeward_spec_def)

text \<open>A plan of zero width has an infinite ratio, beyond the last band.\<close>

lemma leeward_zero_width: "leeward (calculateWallCpValues 100 0) = - 0.2"
  by (simp add: calculateWallCpValues_def js_divide_def Let_def)

lemma leeward_spec_clamp:
  "leeward_spec r = - 1 / 2 + (max 1 (min r 2) - 1) / 5 + (max 2 (min r 4) - 2) / 20"
  by (simp add: leeward_spec_def max_def min_def field_simps)

lemma leeward_spec_continuous: "continuous_on UNIV leeward_spec"
proof -
  have "continuous_on UNIV
     (\<lambda>r::real. - 1 / 2 + (max 1 (min r 2) - 1) / 5 + (max 2 (min r 4) - 2) / 20)"
    by (intro continuous_intros) simp_all
  then show ?thesis
    by (simp add: leeward_spec_clamp [abs_def])
qed

text \<open>
  C6: for a plan with a nonzero width the leeward wall coefficient is the piecewise
  linear function of \<open>L / B\<close> of the specification, its bands closed above; as a function
  of the ratio it is continuous everywhere, and it is -0.5 at 1, -0.3 at 2 and -0.2
  at 4.
\<close>

theorem leeward_piecewise_linear:
  "(roofB \<noteq> 0 \<longrightarrow>
      leeward (calculateWallCpValues roofL roofB) = leeward_spec (roofL / roofB))
   \<and> continuous_on UNIV (\<lambda>r. leeward (calculateWallCpValues r 1))
   \<and> leeward (calculateWallCpValues 1 1) = - 0.5
   \<and> leeward (calculateWallCpValues 2 1) = - 0.3
   \<and> leeward (calculateWallCpValues 4 1) = - 0.2"
proof -
  have "(\<lambda>r. leeward (calculateWallCpValues r 1)) = leeward_spec"
    by (rule ext) (simp add: leeward_finite)
  then show ?thesis
    by (simp add: leeward_finite leeward_spec_continuous) (simp add: leeward_spec_def)
qed

theorem leeward_piecewise_linear_witness:
  "(50::real) \<noteq> 0 \<and> leeward (calculateWallCpValues 100 50) = - 0.3
   \<and> leeward (calculateWallCpValues 75 50) = - 0.4
   \<and> leeward (calculateWallCpValues 150 50) = - 0.25"
  using leeward_piecewise_linear [of 50 100] leeward_piecewise_linear [of 50 75]
    leeward_piecewise_linear [of 50 150]
  by (simp add: leeward_spec_def)

text \<open>
  C7: a flat roof has zone 2 at 0.5 and zones 1 and 3 stepping with the band of
  \<open>L / B\<close>, the bands tested upwards; a sloped roof has 0.3 and -0.7 whatever the plan.
\<close>

theorem roofCp_table:
  "(roofB \<noteq> 0 \<longrightarrow>
      calculateRoofCpValues Flat roofL roofB =
        (case flatRoofCp_spec (roofL / roofB) of (c1, c2, c3) \<Rightarrow> FlatRoofCp c1 c2 c3))
   \<and> zone2 (calculateRoofCpValues Flat roofL roofB) = 0.5
   \<and> calculateRoofCpValues Sloped roofL roofB = SlopedRoofCp 0.3 (- 0.7)"
  by (simp add: calculateRoofCpValues_def js_divide_def Let_def flatRoofCp_spec_def)

theorem roofCp_table_witness:
  "(50::real) \<noteq> 0 \<and> calculateRoofCpValues Flat 100 50 = FlatRoofCp 0.6 0.5 (- 0.5)
   \<and> calculateRoofCpValues Flat 20 50 = FlatRoofCp 0.8 0.5 (- 0.7)
   \<and> calculateRoofCpValues Flat 50 50 = FlatRoofCp 0.7 0.5 (- 0.6)
   \<and> calculateRoofCpValues Flat 150 50 = FlatRoofCp 0.5 0.5 (- 0.4)"
  using roofCp_table [of 50 100] roofCp_table [of 50 20] roofCp_table [of 50 50]
    roofCp_table [of 50 150]
  by (simp add: flatRoofCp_spec_def)

lemma flat_labels:
  "map label (pressures (calculateRoofPressures Flat qz kd gcpi roofL roofB gustFactor)) =
     [RoofZone1 (min (0.2 * roofB) (0.1 * roofL)),
      RoofZone2 (roofB - min (0.2 * roofB) (0.1 * roofL)),
      RoofZone3 (min (0.2 * roofB) (0.1 * roofL))]"
  by (simp add: calculateRoofPressures_def Let_def mult.commute)

text \<open>
  C8 as stated fails: for L = 100 and B = 50 the three reported widths are 10, 40 and
  10 ft, which add up to 60 ft, not to B = 50 ft.
\<close>

theorem zone_widths_counterexample:
  "map (zoneWidth \<circ> label)
     (pressures (calculateRoofPressures Flat 25.6 0.85 (getGcpiValues Enclosed) 100 50 0.85))
     = [10, 40, 10]
   \<and> (10::real) + 40 + 10 \<noteq> 50"
  using flat_labels [of "25.6" "0.85" "getGcpiValues Enclosed" 100 50 "0.85"]
  by (simp flip: map_map)

text \<open>
  C8, amended: the reported widths of a flat roof are \<open>min (0.2 * B) (0.1 * L)\<close> for
  zone 1, \<open>B\<close> less that for zone 2 and the width of zone 1 again for zone 3; zones 1
  and 2 together span \<open>B\<close>; L = 100 and B = 50 give 10, 40 and 10 ft.
\<close>

theorem zone_widths:
  "map (zoneWidth \<circ> label)
     (pressures (calculateRoofPressures Flat qz kd gcpi roofL roofB gustFactor))
     = [min (0.2 * roofB) (0.1 * roofL),
        roofB - min (0.2 * roofB) (0.1 * roofL),
        min (0.2 * roofB) (0.1 * roofL)]
   \<and> min (0.2 * roofB) (0.1 * roofL) + (roofB - min (0.2 * roofB) (0.1 * roofL)) = roofB
   \<and> map (zoneWidth \<circ> label)
     (pressures (calculateRoofPressures Flat qz kd gcpi 100 50 gustFactor)) = [10, 40, 10]"
  using flat_labels [of qz kd gcpi roofL roofB gustFactor]
    flat_labels [of qz kd gcpi 100 50 gustFactor]
  by (simp flip: map_map)

section \<open>The pressure composer\<close>

lemma roof_pvalues:
  "map pvalue (pressures (calculateRoofPressures rt qz kd gcpi roofL roofB G)) =
     map (\<lambda>cp. composePressure_spec (qz * kd) (qz * kd) G cp gcpi)
       (roofCpList (calculateRoofCpValues rt roofL roofB))"
  by (cases rt)
    (simp_all add: calculateRoofPressures_def calculateRoofCpValues_def Let_def
      composePressure_spec_def split_def)

lemma wall_pvalues:
  "isValid form \<Longrightarrow>
   map pvalue (wallPressures (windFormMemo form)) =
     map (\<lambda>cp. composePressure_spec
            (velocityPressureAt form (finite_value (form_wallEvaluationHeight form)))
            (velocityPressureAt form (topStoryHeight form)) 0.85 cp
            (getGcpiValues (form_buildingEnclosure form)))
       [0.8,
        leeward (calculateWallCpValues (finite_value (form_roofLength form))
                   (finite_value (form_roofWidth form))),
        - 0.7]"
  by (simp add: windFormMemo_def Let_def composePressure_spec_def velocityPressureAt_def
      topStoryHeight_def calculateGustEffectFactor_def calculateWallCpValues_def)

lemma roof_grouped:
  "isValid form \<Longrightarrow>
   roofPressuresGrouped (windFormMemo form) =
     pressures (calculateRoofPressures (form_roofType form)
       (velocityPressureAt form (topStoryHeight form))
       (finite_value (form_directionalityFactor form))
       (getGcpiValues (form_buildingEnclosure form))
       (finite_value (form_roofLength form)) (finite_value (form_roofWidth form)) 0.85)"
  by (simp add: windFormMemo_def Let_def velocityPressureAt_def
      topStoryHeight_def calculateGustEffectFactor_def)

lemma manualForm_valid: "0 < kd \<Longrightarrow> kd \<le> 1 \<Longrightarrow> isValid (manualForm kd)"
  by (simp add: isValid_def manualForm_def numStories_def Number_manualKz_def Let_def)

lemma manualForm_qz: "velocityPressureAt (manualForm kd) z = 25.6"
  by (simp add: velocityPressureAt_def velocityPressurePsf_eq qz_spec_def formInput_def
      manualForm_def Number_manualKz_def Kz_effective_spec_def nullish_def
      importance_spec_def importance_table_def round3_spec_def)

lemma manualForm_roofCp:
  "calculateRoofCpValues (form_roofType (manualForm kd))
     (finite_value (form_roofLength (manualForm kd)))
     (finite_value (form_roofWidth (manualForm kd))) = FlatRoofCp 0.6 0.5 (- 0.5)"
  by (simp add: manualForm_def calculateRoofCpValues_def js_divide_def Let_def)

lemma manualForm_roof:
  "0 < kd \<Longrightarrow> kd \<le> 1 \<Longrightarrow>
   map pvalue (roofPressuresGrouped (windFormMemo (manualForm kd))) =
     map (\<lambda>cp. composePressure_spec (25.6 * kd) (25.6 * kd) 0.85 cp (getGcpiValues Enclosed))
       [0.6, 0.5, - 0.5]"
  using manualForm_roofCp [of kd]
  by (simp add: roof_grouped manualForm_valid roof_pvalues manualForm_qz)
    (simp add: manualForm_def)

lemma manualForm_wall:
  "0 < kd \<Longrightarrow> kd \<le> 1 \<Longrightarrow>
   map pvalue (wallPressures (windFormMemo (manualForm kd))) =
     [(12.8, 22.016), (- 11.136, - 1.92), (- 19.84, - 10.624)]"
  by (simp add: wall_pvalues manualForm_valid manualForm_qz)
    (simp add: manualForm_def composePressure_spec_def calculateWallCpValues_def
      js_divide_def Let_def)

lemma defaultForm_valid: "isValid defaultForm"
  by (simp add: isValid_def defaultForm_def numStories_def Let_def)

lemma defaultForm_qz:
  "velocityPressureAt defaultForm z = round3_spec (0.00256 * getKz ExposureB z * 115\<^sup>2)"
  by (simp add: velocityPressureAt_def velocityPressurePsf_eq qz_spec_def formInput_def
      defaultForm_def Kz_effective_spec_def nullish_def importance_spec_def
      importance_table_def)

lemma defaultForm_qz_15: "velocityPressureAt defaultForm 15 = 19.467"
  by (simp add: defaultForm_qz getKz_B_15 round3_spec_def)

lemma defaultForm_qz_25: "velocityPressureAt defaultForm 25 = 22.514"
  by (simp add: defaultForm_qz getKz_B_25 round3_spec_def)

lemma defaultForm_qz_30: "velocityPressureAt defaultForm 30 = 23.733"
  by (simp add: defaultForm_qz getKz_B_30 round3_spec_def)

lemma defaultForm_heights:
  "topStoryHeight defaultForm = 25
   \<and> numStories defaultForm * finite_value (form_storyHeightFt defaultForm) = 30
   \<and> finite_value (form_wallEvaluationHeight defaultForm) = 15"
  by (simp add: topStoryHeight_def numStories_def defaultForm_def)

lemma defaultForm_wall:
  "map pvalue (wallPressures (windFormMemo defaultForm)) =
     [(9.18504, 17.29008), (- 9.016605, - 0.911565), (- 15.635385, - 7.530345)]"
  by (simp add: wall_pvalues defaultForm_valid defaultForm_heights defaultForm_qz_15
      defaultForm_qz_25)
    (simp add: defaultForm_def composePressure_spec_def calculateWallCpValues_def
      js_divide_def Let_def)

lemma defaultForm_roofCp:
  "calculateRoofCpValues (form_roofType defaultForm)
     (finite_value (form_roofLength defaultForm))
     (finite_value (form_roofWidth defaultForm)) = FlatRoofCp 0.6 0.5 (- 0.5)"
  by (simp add: defaultForm_def calculateRoofCpValues_def js_divide_def Let_def)

lemma defaultForm_roof:
  "map pvalue (roofPressuresGrouped (windFormMemo defaultForm)) =
     [(6.315177, 13.204461), (4.6885405, 11.5778245), (- 11.5778245, - 4.6885405)]"
  using defaultForm_roofCp
  by (simp add: roof_grouped defaultForm_valid roof_pvalues defaultForm_heights
      defaultForm_qz_25)
    (simp add: defaultForm_def composePressure_spec_def)

text \<open>
  C2, at the form the calculator starts with (three stories of 10 ft, the wall evaluated
  at 15 ft, Kd 0.85): the roof is at 30 ft, where the velocity pressure is 23.733 psf,
  but the form takes its roof-height velocity pressure at 25 ft, the middle of the top
  story, where it is 22.514 psf. The windward wall comes out as (9.18504, 17.29008) psf
  where \<open>q * G * Cp - q\<^sub>i * Gcpi\<close> with the roof-height \<open>q\<^sub>i\<close> is (8.96562, 17.5095)
  psf, and roof zone 1 is composed from 22.514 * 0.85 in both terms,
  (6.315177, 13.204461) psf, where the formula at roof height is (7.83189, 16.37577) psf.
\<close>

theorem default_form_pressures:
  "isValid defaultForm
   \<and> topStoryHeight defaultForm = 25
   \<and> numStories defaultForm * finite_value (form_storyHeightFt defaultForm) = 30
   \<and> velocityPressureAt defaultForm 15 = 19.467
   \<and> velocityPressureAt defaultForm 25 = 22.514
   \<and> velocityPressureAt defaultForm 30 = 23.733
   \<and> map pvalue (wallPressures (windFormMemo defaultForm))
       = [(9.18504, 17.29008), (- 9.016605, - 0.911565), (- 15.635385, - 7.530345)]
   \<and> composePressure_spec 19.467 22.514 0.85 0.8 (getGcpiValues Enclosed)
       = (9.18504, 17.29008)
   \<and> composePressure_spec 19.467 23.733 0.85 0.8 (getGcpiValues Enclosed)
       = (8.96562, 17.5095)
   \<and> map pvalue (roofPressuresGrouped (windFormMemo defaultForm))
       = [(6.315177, 13.204461), (4.6885405, 11.5778245), (- 11.5778245, - 4.6885405)]
   \<and> composePressure_spec (22.514 * 0.85) (22.514 * 0.85) 0.85 0.6 (getGcpiValues Enclosed)
       = (6.315177, 13.204461)
   \<and> composePressure_spec 23.733 23.733 0.85 0.6 (getGcpiValues Enclosed)
       = (7.83189, 16.37577)"
  by (simp add: defaultForm_valid defaultForm_heights defaultForm_qz_15 defaultForm_qz_25
      defaultForm_qz_30 defaultForm_wall defaultForm_roof)
    (simp add: composePressure_spec_def)

theorem default_form_pressures_witness:
  "hd (map pvalue (wallPressures (windFormMemo defaultForm)))
     \<noteq> composePressure_spec (velocityPressureAt defaultForm 15)
         (velocityPressureAt defaultForm 30) 0.85 0.8 (getGcpiValues Enclosed)
   \<and> hd (map pvalue (roofPressuresGrouped (windFormMemo defaultForm)))
     \<noteq> composePressure_spec (velocityPressureAt defaultForm 30)
         (velocityPressureAt defaultForm 30) 0.85 0.6 (getGcpiValues Enclosed)
   \<and> hd (map pvalue (roofPressuresGrouped (windFormMemo defaultForm)))
     \<noteq> composePressure_spec (velocityPressureAt defaultForm 25)
         (velocityPressureAt defaultForm 25) 0.85 0.6 (getGcpiValues Enclosed)"
  using default_form_pressures by (simp add: composePressure_spec_def)

text \<open>
  C3, at a valid form with Kd = 0.85: the wall pressures are those of the same form with
  Kd = 1, so Kd is no multiplier of them, while the roof pressures of the two forms
  differ by the factor 0.85.
\<close>

theorem wall_pressures_without_Kd:
  "isValid (manualForm 0.85) \<and> isValid (manualForm 1)
   \<and> map pvalue (wallPressures (windFormMemo (manualForm 0.85)))
       = [(12.8, 22.016), (- 11.136, - 1.92), (- 19.84, - 10.624)]
   \<and> map pvalue (wallPressures (windFormMemo (manualForm 1)))
       = [(12.8, 22.016), (- 11.136, - 1.92), (- 19.84, - 10.624)]
   \<and> map pvalue (roofPressuresGrouped (windFormMemo (manualForm 0.85)))
       = [(7.1808, 15.0144), (5.3312, 13.1648), (- 13.1648, - 5.3312)]
   \<and> map pvalue (roofPressuresGrouped (windFormMemo (manualForm 1)))
       = [(8.448, 17.664), (6.272, 15.488), (- 15.488, - 6.272)]"
  by (simp add: manualForm_valid manualForm_wall manualForm_roof)
    (simp add: composePressure_spec_def)

theorem wall_pressures_without_Kd_witness:
  "map pvalue (wallPressures (windFormMemo (manualForm 0.85)))
     = map pvalue (wallPressures (windFormMemo (manualForm 1)))
   \<and> map pvalue (roofPressuresGrouped (windFormMemo (manualForm 0.85)))
     \<noteq> map pvalue (roofPressuresGrouped (windFormMemo (manualForm 1)))"
  using wall_pressures_without_Kd by simp

end
